theory Spec2Isabelle
  imports Main
begin

section \<open>Parsed documents and the XPath queries of the notebooks\<close>

text \<open>
  A detail document, once parsed, is a tree of elements and text nodes. An element has a
  name, its attributes in the order they are written, and its children in document
  order. The name of an element is the string the notebook's XPath name test is matched
  against (\<open>re3data.orgidentifier\<close> after \<open>html.fromstring\<close>,
  \<open>r3d:type\<close> for the namespace-aware queries).
\<close>

datatype node = Element string "(string \<times> string) list" "node list" | Text string




text \<open>
  R: \<open>xml_find_all(doc, "//t")\<close> gives the elements named \<open>t\<close> in document order and
  \<open>xml_text\<close> the string value of each (the concatenation of its text descendants, the
  empty string for an empty element).
\<close>

fun xml_find_all :: "node \<Rightarrow> string \<Rightarrow> node list" where
  "xml_find_all (Text s) t = []"
| "xml_find_all (Element n as cs) t =
     (if n = t then [Element n as cs] else []) @ concat (map (\<lambda>c. xml_find_all c t) cs)"

fun xml_text :: "node \<Rightarrow> string" where
  "xml_text (Text s) = s"
| "xml_text (Element n as cs) = concat (map xml_text cs)"

section \<open>Values, records and errors\<close>

text \<open>
  A cell of a table or a value of a dictionary: a missing value (Python \<open>None\<close>, pandas
  \<open>NaN\<close>, R \<open>NA\<close>), a string, a list of strings (the result of an XPath query) or a
  boolean. A Python dictionary and an R named list are association lists in the order
  the source writes the keys.
\<close>

datatype cell = Null | Str string | Lst "string list" | Bool bool

type_synonym row = "(string \<times> cell) list"

text \<open>The exceptions and R errors the notebooks can meet; none of them is caught.\<close>

datatype error =
  TransportError | ParserError | IndexError | KeyError | TypeError | ValueError | InvalidListArgument

section \<open>Use case 1 (Python): the record extractor\<close>




section \<open>Use case 1 (Python): the driver loop\<close>


section \<open>Use case 3 (Python): extractor, driver loop, explosion, deduplication\<close>




text \<open>
  A data frame is its column names and its rows, each row with its index label and one
  cell per column. \<open>pandas.DataFrame(results)\<close> labels the records 0, 1, 2, ...; its
  columns are the keys met, in order of first appearance, and a record without a key has
  a missing value there.
\<close>

record frame =
  columns :: "string list"
  rows :: "(nat \<times> row) list"

type_synonym series = "(nat \<times> cell) list"

fun unique :: "'a list \<Rightarrow> 'a list" where
  "unique [] = []"
| "unique (x # xs) = x # unique (filter (\<lambda>y. y \<noteq> x) xs)"

definition at :: "row \<Rightarrow> string \<Rightarrow> cell" where
  "at r c = (case map_of r c of None \<Rightarrow> Null | Some v \<Rightarrow> v)"

definition DataFrame :: "row list \<Rightarrow> frame" where
  "DataFrame results =
     (let cols = unique (concat (map (map fst) results))
      in \<lparr>columns = cols,
          rows = zip [0..<length results] (map (\<lambda>d. map (\<lambda>c. (c, at d c)) cols) results)\<rparr>)"

definition column :: "frame \<Rightarrow> string \<Rightarrow> series" where
  "column df c = map (\<lambda>ir. (fst ir, at (snd ir) c)) (rows df)"

text \<open>
  \<open>pandas.Series.explode\<close>: a list becomes one entry per element, each under the label
  of its row; an empty list becomes one missing value; a scalar stays.
\<close>

fun explode_values :: "cell \<Rightarrow> cell list" where
  "explode_values (Lst []) = [Null]"
| "explode_values (Lst xs) = map Str xs"
| "explode_values v = [v]"

definition explode :: "series \<Rightarrow> series" where
  "explode s = concat (map (\<lambda>iv. map (Pair (fst iv)) (explode_values (snd iv))) s)"

text \<open>
  \<open>DataFrame.apply\<close> builds the result from the exploded columns, which it aligns on the
  union of their indexes: every label, in ascending order, as often as the column that
  repeats it most. A column whose index is the union is taken as it is; a column whose
  labels are all different is looked up label by label, so its value is repeated; any
  other column cannot be reindexed, and pandas raises \<open>ValueError\<close>.
\<close>

definition union_indexes :: "nat list list \<Rightarrow> nat list" where
  "union_indexes ixs =
     concat (map (\<lambda>l. replicate (fold max (map (\<lambda>ix. count_list ix l) ixs) 0) l)
                 (sorted_list_of_set (set (concat ixs))))"

definition at_label :: "series \<Rightarrow> nat \<Rightarrow> cell" where
  "at_label s l = (case map_of s l of None \<Rightarrow> Null | Some v \<Rightarrow> v)"

definition reindex :: "series \<Rightarrow> nat list \<Rightarrow> error + cell list" where
  "reindex s target =
     (if map fst s = target then Inr (map snd s)
      else if distinct (map fst s) then Inr (map (\<lambda>l. at_label s l) target)
      else Inl ValueError)"

fun all_or_first_error :: "(error + 'a) list \<Rightarrow> error + 'a list" where
  "all_or_first_error [] = Inr []"
| "all_or_first_error (Inl e # rs) = Inl e"
| "all_or_first_error (Inr x # rs) =
     (case all_or_first_error rs of Inl e \<Rightarrow> Inl e | Inr xs \<Rightarrow> Inr (x # xs))"

definition apply_explode :: "frame \<Rightarrow> error + frame" where
  "apply_explode df =
     (let cols = columns df;
          exploded = map (\<lambda>c. explode (column df c)) cols;
          index = union_indexes (map (map fst) exploded)
      in case all_or_first_error (map (\<lambda>s. reindex s index) exploded) of
           Inl e \<Rightarrow> Inl e
         | Inr vals \<Rightarrow>
             Inr \<lparr>columns = cols,
                  rows = map (\<lambda>j. (index ! j, map (\<lambda>cv. (fst cv, snd cv ! j)) (zip cols vals)))
                             [0..<length index]\<rparr>)"

text \<open>
  The exploded table seen row by row. A record gives as many rows as its longest cell
  has values (\<open>height\<close>); in row \<open>j\<close> a cell of that length gives its \<open>j\<close>-th
  value and any other cell its first one.
\<close>

definition height :: "string list \<Rightarrow> row \<Rightarrow> nat" where
  "height cols r = fold max (map (\<lambda>c. length (explode_values (at r c))) cols) 0"

definition exploded_cell :: "string list \<Rightarrow> row \<Rightarrow> string \<Rightarrow> nat \<Rightarrow> cell" where
  "exploded_cell cols r c j =
     (if length (explode_values (at r c)) = height cols r then explode_values (at r c) ! j
      else explode_values (at r c) ! 0)"

definition exploded_rows :: "string list \<Rightarrow> nat \<times> row \<Rightarrow> (nat \<times> row) list" where
  "exploded_rows cols ir =
     map (\<lambda>j. (fst ir, map (\<lambda>c. (c, exploded_cell cols (snd ir) c j)) cols))
         [0..<height cols (snd ir)]"

text \<open>
  \<open>drop_duplicates(subset=...)\<close> keeps, for every combination of values in the columns of
  \<open>subset\<close>, the first row that has it, in the order of the frame. A column of \<open>subset\<close>
  that the frame does not have raises \<open>KeyError\<close>.
\<close>

fun keep_first :: "string list \<Rightarrow> cell list list \<Rightarrow> (nat \<times> row) list \<Rightarrow> (nat \<times> row) list" where
  "keep_first subset' seen [] = []"
| "keep_first subset' seen (ir # rs) =
     (if map (at (snd ir)) subset' \<in> set seen then keep_first subset' seen rs
      else ir # keep_first subset' (map (at (snd ir)) subset' # seen) rs)"

definition drop_duplicates :: "string list \<Rightarrow> frame \<Rightarrow> error + frame" where
  "drop_duplicates subset' df =
     (if set subset' \<subseteq> set (columns df)
      then Inr (df\<lparr>rows := keep_first subset' [] (rows df)\<rparr>)
      else Inl KeyError)"

section \<open>Use case 1 (R): extractor and driver loop\<close>

text \<open>
  The R extractors return a named list of character vectors. \<open>rbind(df, l)\<close> with a
  list \<open>l\<close> appends as many rows as the vectors of \<open>l\<close> are long, pairing them by
  position, and stops with an error when their lengths differ.
\<close>

type_synonym named_list = "(string \<times> string list) list"


definition rows_of_list :: "named_list \<Rightarrow> nat \<Rightarrow> row list" where
  "rows_of_list l n = map (\<lambda>j. map (\<lambda>kv. (fst kv, Str (snd kv ! j))) l) [0..<n]"

definition rbind :: "row list \<Rightarrow> named_list \<Rightarrow> error + row list" where
  "rbind df l =
     (case unique (map (\<lambda>kv. length (snd kv)) l) of
        [] \<Rightarrow> Inr df
      | [n] \<Rightarrow> Inr (df @ rows_of_list l n)
      | _ \<Rightarrow> Inl InvalidListArgument)"


section \<open>Use case 2 (R): extractor, driver loop and processing\<close>

text \<open>\<open>paste(v, collapse = sep)\<close>: the empty string for an empty vector.\<close>

fun paste_collapse :: "string list \<Rightarrow> string \<Rightarrow> string" where
  "paste_collapse [] sep = []"
| "paste_collapse [x] sep = x"
| "paste_collapse (x # y # ys) sep = x @ sep @ paste_collapse (y # ys) sep"

definition extract_repository_info_r2 :: "node \<Rightarrow> named_list" where
  "extract_repository_info_r2 repository_metadata_XML =
     [(''re3data_ID'', map xml_text (xml_find_all repository_metadata_XML ''r3d:re3data.orgIdentifier'')),
      (''type'',
         [paste_collapse (unique (map xml_text (xml_find_all repository_metadata_XML ''r3d:type'')))
            ''_AND_'']),
      (''certificate'',
         [paste_collapse (unique (map xml_text (xml_find_all repository_metadata_XML ''r3d:certificate'')))
            ''_AND_''])]"

fun collect_r2 ::
  "(string \<Rightarrow> error + string) \<Rightarrow> (string \<Rightarrow> error + node) \<Rightarrow> string list \<Rightarrow> row list
     \<Rightarrow> error + row list" where
  "collect_r2 GET read_xml [] repository_info = Inr repository_info"
| "collect_r2 GET read_xml (url # URLs) repository_info =
     (case GET url of
        Inl e \<Rightarrow> Inl e
      | Inr repository_metadata_request \<Rightarrow>
          (case read_xml repository_metadata_request of
             Inl e \<Rightarrow> Inl e
           | Inr repository_metadata_XML \<Rightarrow>
               (case rbind repository_info (extract_repository_info_r2 repository_metadata_XML) of
                  Inl e \<Rightarrow> Inl e
                | Inr repository_info' \<Rightarrow> collect_r2 GET read_xml URLs repository_info')))"

text \<open>
  \<open>mutate_all(na_if, "")\<close> turns every empty string of the table into \<open>NA\<close>;
  \<open>mutate(certificate = ifelse(is.na(certificate), FALSE, TRUE))\<close> replaces the column
  by the flag.
\<close>

definition na_if :: "cell \<Rightarrow> string \<Rightarrow> cell" where
  "na_if x y = (if x = Str y then Null else x)"

definition mutate_all_na_if :: "row list \<Rightarrow> row list" where
  "mutate_all_na_if df = map (map (\<lambda>kv. (fst kv, na_if (snd kv) []))) df"

definition is_na :: "cell \<Rightarrow> bool" where
  "is_na x = (x = Null)"

definition mutate_certificate :: "row list \<Rightarrow> row list" where
  "mutate_certificate df =
     map (map (\<lambda>kv. if fst kv = ''certificate''
                      then (fst kv, if is_na (snd kv) then Bool False else Bool True)
                      else kv)) df"

text \<open>
  \<open>separate_rows(col, sep = s)\<close> splits the string of the column at every match of
  \<open>s\<close>, leftmost first, keeping empty pieces, and makes one row per piece; a missing
  value stays one row. \<open>s\<close> is a regular expression; \<open>_AND_\<close> has no special
  character and matches itself.
\<close>

fun str_split :: "string \<Rightarrow> string \<Rightarrow> string \<Rightarrow> string list" where
  "str_split sep piece [] = [piece]"
| "str_split sep piece (c # cs) =
     (if sep \<noteq> [] \<and> take (length sep) (c # cs) = sep
      then piece # str_split sep [] (drop (length sep) (c # cs))
      else str_split sep (piece @ [c]) cs)"

fun pieces :: "string \<Rightarrow> cell \<Rightarrow> cell list" where
  "pieces sep (Str s) = map Str (str_split sep [] s)"
| "pieces sep v = [v]"

definition separate_rows :: "string \<Rightarrow> string \<Rightarrow> row list \<Rightarrow> row list" where
  "separate_rows col sep df =
     concat (map (\<lambda>r. map (\<lambda>v. map (\<lambda>kv. if fst kv = col then (fst kv, v) else kv) r)
                            (pieces sep (at r col))) df)"

definition process_r2 :: "row list \<Rightarrow> row list" where
  "process_r2 repository_info =
     separate_rows ''type'' ''_AND_'' (mutate_certificate (mutate_all_na_if repository_info))"

definition run_r2 ::
  "(string \<Rightarrow> error + string) \<Rightarrow> (string \<Rightarrow> error + node) \<Rightarrow> string list \<Rightarrow> error + row list" where
  "run_r2 GET read_xml URLs =
     (case collect_r2 GET read_xml URLs [] of
        Inl e \<Rightarrow> Inl e
      | Inr repository_info \<Rightarrow> Inr (process_r2 repository_info))"

section \<open>What one resource contributes\<close>

text \<open>
  The outcome of the two calls every loop makes first for a reference: the parsed
  document, or the exception of the transport or of the parser.
\<close>

definition fetched ::
  "(string \<Rightarrow> error + string) \<Rightarrow> (string \<Rightarrow> error + node) \<Rightarrow> string \<Rightarrow> error + node" where
  "fetched get parse url = (case get url of Inl e \<Rightarrow> Inl e | Inr content \<Rightarrow> parse content)"




section \<open>Concrete documents and servers\<close>

text \<open>
  A server for the examples: the references it answers, and the documents it holds. The
  body of a response is the reference itself; a body that names no document does not
  parse.
\<close>

definition get_from :: "string list \<Rightarrow> string \<Rightarrow> error + string" where
  "get_from served url = (if url \<in> set served then Inr url else Inl TransportError)"

definition parse_from :: "(string \<times> node) list \<Rightarrow> string \<Rightarrow> error + node" where
  "parse_from site content =
     (case map_of site content of None \<Rightarrow> Inl ParserError | Some d \<Rightarrow> Inr d)"



definition doc_two_urls :: node where
  "doc_two_urls =
     Element ''repository'' []
       [Element ''re3data.orgidentifier'' [] [Text ''r3d100000003''],
        Element ''repositoryname'' [] [Text ''Two URLs''],
        Element ''repositoryurl'' [] [Text ''https://three.example.org/''],
        Element ''repositoryurl'' [] [Text ''https://mirror.example.org/''],
        Element ''api'' [(''apitype'', ''REST'')] [Text ''a'']]"

definition doc_ragged :: node where
  "doc_ragged =
     Element ''repository'' []
       [Element ''re3data.orgidentifier'' [] [Text ''r3d100000004''],
        Element ''repositoryname'' [] [Text ''Ragged''],
        Element ''repositoryurl'' [] [Text ''https://four.example.org/''],
        Element ''api'' [(''apitype'', ''REST'')] [Text ''a''],
        Element ''api'' [(''apitype'', ''SWORD'')] [Text ''b''],
        Element ''api'' [] [Text ''c'']]"

definition doc_same_type_twice :: node where
  "doc_same_type_twice =
     Element ''repository'' []
       [Element ''re3data.orgidentifier'' [] [Text ''r3d100000005''],
        Element ''repositoryname'' [] [Text ''Two endpoints''],
        Element ''repositoryurl'' [] [Text ''https://five.example.org/''],
        Element ''api'' [(''apitype'', ''REST'')] [Text ''a''],
        Element ''api'' [(''apitype'', ''REST'')] [Text ''b'']]"

text \<open>
  The exploded table of \<open>doc_same_type_twice\<close>, and what deduplication by identifier
  and API type leaves of it.
\<close>

definition frame_rest_twice :: frame where
  "frame_rest_twice =
     \<lparr>columns = [''re3data_id'', ''name'', ''url'', ''api'', ''api_type''],
      rows = [(0, [(''re3data_id'', Str ''r3d100000005''), (''name'', Str ''Two endpoints''),
                   (''url'', Str ''https://five.example.org/''), (''api'', Str ''a''),
                   (''api_type'', Str ''REST'')]),
              (0, [(''re3data_id'', Str ''r3d100000005''), (''name'', Str ''Two endpoints''),
                   (''url'', Str ''https://five.example.org/''), (''api'', Str ''b''),
                   (''api_type'', Str ''REST'')])]\<rparr>"

definition frame_rest_once :: frame where
  "frame_rest_once =
     \<lparr>columns = [''re3data_id'', ''name'', ''url'', ''api'', ''api_type''],
      rows = [(0, [(''re3data_id'', Str ''r3d100000005''), (''name'', Str ''Two endpoints''),
                   (''url'', Str ''https://five.example.org/''), (''api'', Str ''a''),
                   (''api_type'', Str ''REST'')])]\<rparr>"




text \<open>The R notebooks, with the names of the schema.\<close>

definition doc_two_types :: node where
  "doc_two_types =
     Element ''r3d:repository'' []
       [Element ''r3d:re3data.orgIdentifier'' [] [Text ''r3d100000008''],
        Element ''r3d:type'' [] [Text ''institutional''],
        Element ''r3d:type'' [] [Text ''other'']]"





section \<open>Lemmas: lists, loops, strings\<close>






subsection \<open>The Python loops\<close>







subsection \<open>The R loop of use case 1\<close>



subsection \<open>Splitting what was pasted\<close>





lemma rbind_one:
  "rbind [] [(''re3data_ID'', [i]), (''type'', [T]), (''certificate'', [C])]
     = Inr [[(''re3data_ID'', Str i), (''type'', Str T), (''certificate'', Str C)]]"
  by (simp add: rbind_def rows_of_list_def)

lemma process_r2_one:
  "process_r2 [[(''re3data_ID'', Str i), (''type'', Str T), (''certificate'', Str C)]]
     = map (\<lambda>v. [(''re3data_ID'', na_if (Str i) []), (''type'', v),
                   (''certificate'', Bool (C \<noteq> []))])
           (if T = [] then [Null] else map Str (str_split ''_AND_'' [] T))"
  by (simp add: process_r2_def separate_rows_def mutate_certificate_def mutate_all_na_if_def
      na_if_def is_na_def at_def o_def)

lemma run_r2_one:
  assumes "fetched GET read_xml url = Inr doc"
    and "map xml_text (xml_find_all doc ''r3d:re3data.orgIdentifier'') = [i]"
  shows "run_r2 GET read_xml [url] =
     Inr (map (\<lambda>v. [(''re3data_ID'', na_if (Str i) []), (''type'', v),
                   (''certificate'', Bool (paste_collapse (unique (map xml_text (xml_find_all doc ''r3d:certificate''))) ''_AND_'' \<noteq> []))])
           (if paste_collapse (unique (map xml_text (xml_find_all doc ''r3d:type''))) ''_AND_'' = [] then [Null]
            else map Str (str_split ''_AND_'' [] (paste_collapse (unique (map xml_text (xml_find_all doc ''r3d:type''))) ''_AND_''))))"
proof -
  from assms(1) obtain c where c: "GET url = Inr c" "read_xml c = Inr doc"
    by (auto simp: fetched_def split: sum.splits)
  have "collect_r2 GET read_xml [url] [] =
      Inr [[(''re3data_ID'', Str i),
            (''type'', Str (paste_collapse (unique (map xml_text (xml_find_all doc ''r3d:type''))) ''_AND_'')),
            (''certificate'', Str (paste_collapse (unique (map xml_text (xml_find_all doc ''r3d:certificate''))) ''_AND_''))]]"
    using c assms(2) by (simp add: extract_repository_info_r2_def rbind_one)
  then show ?thesis unfolding run_r2_def by (simp only: sum.case process_r2_one)
qed

subsection \<open>Keeping the first row of every key\<close>

lemma keep_first_subseq: "set (keep_first s seen rs) \<subseteq> set rs"
  by (induction rs arbitrary: seen) auto

lemma keep_first_keys:
  "set (map (\<lambda>ir. map (at (snd ir)) s) (keep_first s seen rs))
     = set (map (\<lambda>ir. map (at (snd ir)) s) rs) - set seen"
  by (induction rs arbitrary: seen) auto

lemma keep_first_distinct:
  "distinct (map (\<lambda>ir. map (at (snd ir)) s) (keep_first s seen rs))"
  by (induction rs arbitrary: seen) (auto simp: keep_first_keys simp del: set_map)

lemma keep_first_fixed:
  "distinct (map (\<lambda>ir. map (at (snd ir)) s) rs) \<Longrightarrow>
   set (map (\<lambda>ir. map (at (snd ir)) s) rs) \<inter> set seen = {} \<Longrightarrow>
   keep_first s seen rs = rs"
  by (induction rs arbitrary: seen) auto

lemma keep_first_idem: "keep_first s [] (keep_first s [] rs) = keep_first s [] rs"
  by (rule keep_first_fixed) (simp_all add: keep_first_distinct del: set_map)

lemma keep_first_count:
  "length (filter (\<lambda>ir. at (snd ir) a = x) (keep_first [a, f] seen rs))
     \<le> card ((\<lambda>ir. at (snd ir) f) ` {ir \<in> set rs. at (snd ir) a = x})"
proof -
  let ?K = "keep_first [a, f] seen rs"
  let ?F = "filter (\<lambda>ir. at (snd ir) a = x) ?K"
  have d: "distinct (map (\<lambda>ir. map (at (snd ir)) [a, f]) ?F)"
    using keep_first_distinct[of "[a, f]" seen rs] by (simp add: distinct_map_filter)
  have inj: "inj_on (\<lambda>ir. at (snd ir) f) (set ?F)"
  proof (rule inj_onI)
    fix p q assume p: "p \<in> set ?F" and q: "q \<in> set ?F" and e: "at (snd p) f = at (snd q) f"
    from p q have "at (snd p) a = at (snd q) a" by simp
    with e have "map (at (snd p)) [a, f] = map (at (snd q)) [a, f]" by simp
    moreover from d have "inj_on (\<lambda>ir. map (at (snd ir)) [a, f]) (set ?F)" by (simp add: distinct_map)
    ultimately show "p = q" using p q by (auto dest: inj_onD)
  qed
  from d have dF: "distinct ?F" by (simp add: distinct_map)
  have "length ?F = card (set ?F)" using distinct_card[OF dF] by simp
  also have "\<dots> = card ((\<lambda>ir. at (snd ir) f) ` set ?F)" using inj by (simp add: card_image)
  also have "\<dots> \<le> card ((\<lambda>ir. at (snd ir) f) ` {ir \<in> set rs. at (snd ir) a = x})"
    by (rule card_mono) (use keep_first_subseq[of "[a, f]" seen rs] in auto)
  finally show ?thesis .
qed

section \<open>The claims\<close>

subsection \<open>C2: a document without identifier or name\<close>




subsection \<open>C3: a failure while fetching or parsing\<close>




subsection \<open>C6: deduplication by identifier and field\<close>

text \<open>
  C6. When \<open>drop_duplicates(subset=["re3data_id", field])\<close> returns a table, the rows
  it keeps for an identifier are at most as many as the different values of the field
  that the identifier has in the table it was given, and deduplicating the result again
  by the same key returns it unchanged.
\<close>

theorem C6_dedup_bounded_and_idempotent:
  assumes "drop_duplicates [''re3data_id'', field] df = Inr df'"
  shows "length (filter (\<lambda>ir. at (snd ir) ''re3data_id'' = x) (rows df'))
           \<le> card ((\<lambda>ir. at (snd ir) field) ` {ir \<in> set (rows df). at (snd ir) ''re3data_id'' = x})
       \<and> drop_duplicates [''re3data_id'', field] df' = Inr df'"
proof -
  from assms have c: "set [''re3data_id'', field] \<subseteq> set (columns df)"
    and df': "df' = df\<lparr>rows := keep_first [''re3data_id'', field] [] (rows df)\<rparr>"
    by (auto simp: drop_duplicates_def split: if_splits)
  have "drop_duplicates [''re3data_id'', field] df' = Inr df'"
    using c unfolding df' drop_duplicates_def by (simp add: keep_first_idem)
  then show ?thesis using keep_first_count[of "''re3data_id''" x field "[]" "rows df"]
    by (simp add: df')
qed

text \<open>
  The theorem at the exploded table of a repository that offers the API type REST at two
  endpoints: one row is kept, and deduplicating it again changes nothing.
\<close>

theorem C6_witness:
  "drop_duplicates [''re3data_id'', ''api_type''] frame_rest_twice = Inr frame_rest_once
   \<and> length (filter (\<lambda>ir. at (snd ir) ''re3data_id'' = Str ''r3d100000005'') (rows frame_rest_once))
       \<le> card ((\<lambda>ir. at (snd ir) ''api_type'') `
            {ir \<in> set (rows frame_rest_twice). at (snd ir) ''re3data_id'' = Str ''r3d100000005''})
   \<and> drop_duplicates [''re3data_id'', ''api_type''] frame_rest_once = Inr frame_rest_once"
proof -
  have h: "drop_duplicates [''re3data_id'', ''api_type''] frame_rest_twice = Inr frame_rest_once"
    by (simp add: drop_duplicates_def at_def frame_rest_twice_def frame_rest_once_def)
  from C6_dedup_bounded_and_idempotent[OF h, of "Str ''r3d100000005''"] h show ?thesis
    by blast
qed

subsection \<open>C7: single-valued fields\<close>


subsection \<open>C8: two types and no certificate\<close>

text \<open>
  C8. For a document with one identifier, the type entries \<open>institutional\<close> and
  \<open>other\<close> and no certificate entry, use case 2 (loop and processing) returns exactly
  two rows, one per type in that order, and the certificate column is \<open>FALSE\<close> in both.
\<close>

theorem C8_two_types_no_certificate:
  assumes "fetched GET read_xml url = Inr doc"
    and "map xml_text (xml_find_all doc ''r3d:re3data.orgIdentifier'') = [i]"
    and "map xml_text (xml_find_all doc ''r3d:type'') = [''institutional'', ''other'']"
    and "xml_find_all doc ''r3d:certificate'' = []"
  shows "run_r2 GET read_xml [url] =
     Inr [[(''re3data_ID'', na_if (Str i) []), (''type'', Str ''institutional''),
           (''certificate'', Bool False)],
          [(''re3data_ID'', na_if (Str i) []), (''type'', Str ''other''),
           (''certificate'', Bool False)]]"
  unfolding run_r2_one[OF assms(1,2)] assms(3,4) by simp

text \<open>The theorem at the document of the scenario, served under the reference \<open>R8\<close>.\<close>

theorem C8_witness:
  "run_r2 (get_from [''R8'']) (parse_from [(''R8'', doc_two_types)]) [''R8''] =
     Inr [[(''re3data_ID'', Str ''r3d100000008''), (''type'', Str ''institutional''),
           (''certificate'', Bool False)],
          [(''re3data_ID'', Str ''r3d100000008''), (''type'', Str ''other''),
           (''certificate'', Bool False)]]"
  using C8_two_types_no_certificate[of "get_from [''R8'']" "parse_from [(''R8'', doc_two_types)]"
      "''R8''" doc_two_types "''r3d100000008''"]
  by (simp add: fetched_def get_from_def parse_from_def doc_two_types_def na_if_def)

subsection \<open>C9: the order of the assembled table\<close>



subsection \<open>C10: one row per distinct type\<close>





end
